theory Spec2Isabelle
  imports Complex_Main
begin

section \<open>The Ziegler-Natta kinetic model (zieglerModel.ts)\<close>

text \<open>
  A shallow embedding of \<open>calculateReactionRates\<close>. The TypeScript type \<open>number\<close> is
  modelled by \<^typ>\<open>real\<close>: arithmetic is exact, so the rounding and the overflow of IEEE
  doubles, and the values NaN and Infinity, are outside the model; the underflow of
  \<open>Math.exp\<close> to 0, which decides the monotonicity of the kinetic constants, is written
  out in \<open>Math_exp\<close> below. Every local
  constant of the source function is a definition of the same name; the constants that
  depend on the input take the input record as their argument.
\<close>

subsection \<open>Inputs and outputs\<close>

record ZieglerModelInputs =
  hydrogen :: real
  ethylene :: real
  hexene :: real
  catalyst :: real
  cr6 :: real
  cocatalyst :: real
  volume :: real
  temperature :: real
  reactorFlag :: real
  activeSites_z0_1 :: real
  activeSites_z0_2 :: real
  livingPolymerEnd_z1_1 :: real
  livingPolymerEnd_z1_2 :: real
  livingPolymerEnd_z2_1 :: real
  livingPolymerEnd_z2_2 :: real
  livingPolymerMoment0_y0_1 :: real
  livingPolymerMoment0_y0_2 :: real
  livingPolymerMoment1_y1_1 :: real
  livingPolymerMoment1_y1_2 :: real
  livingPolymerMoment2_y2_1 :: real
  livingPolymerMoment2_y2_2 :: real

record ZieglerModelOutputs =
  polymerProductionRate :: real
  rateNitrogen :: real
  rateEthylene :: real
  rateEthane :: real
  ratePropane :: real
  rateButene :: real
  rateIsobutane :: real
  rateHexene :: real
  rateHexane :: real
  rateWater :: real
  rateCarbonMonoxide :: real
  rateMethane :: real
  rateHydrogen :: real
  rateEthylenesegment :: real
  rateHexenesegment :: real
  rateCatalyst :: real
  rateCocatalyst :: real
  rateCr6 :: real
  rateDeadPolymerMoment0_x0_1 :: real
  rateDeadPolymerMoment0_x0_2 :: real
  rateDeadPolymerMoment1_x1_1 :: real
  rateDeadPolymerMoment1_x1_2 :: real
  rateDeadPolymerMoment2_x2_1 :: real
  rateDeadPolymerMoment2_x2_2 :: real
  rateLivingPolymerMoment0_y0_1 :: real
  rateLivingPolymerMoment0_y0_2 :: real
  rateLivingPolymerMoment1_y1_1 :: real
  rateLivingPolymerMoment1_y1_2 :: real
  rateLivingPolymerMoment2_y2_1 :: real
  rateLivingPolymerMoment2_y2_2 :: real
  rateActiveSites_z0_1 :: real
  rateActiveSites_z0_2 :: real
  rateLivingPolymerEnd_z1_1 :: real
  rateLivingPolymerEnd_z1_2 :: real
  rateLivingPolymerEnd_z2_1 :: real
  rateLivingPolymerEnd_z2_2 :: real
  ratePolymerMass :: real

text \<open>
  The source function contains no \<open>throw\<close> statement and calls nothing but \<open>Math.exp\<close>.
  The error type names the one error the specification speaks of, so that raising can be
  stated at all; the result type of the model is \<open>error + ZieglerModelOutputs\<close>.
\<close>

datatype error = InvalidTemperature

subsection \<open>Fixed constants and kinetic parameters\<close>

definition MC2 :: real where
  "MC2 = 28"

definition MC6 :: real where
  "MC6 = 84"

definition MH2 :: real where
  "MH2 = 2"

definition aka :: real where
  "aka = 1.90413"

definition bka :: real where
  "bka = 2.35352"

definition akaa :: real where
  "akaa = 42.8061"

definition bkaa :: real where
  "bkaa = 2.07067"

definition akaH :: real where
  "akaH = 43.4913"

definition bkaH :: real where
  "bkaH = 1.81544"

definition ai1_1 :: real where
  "ai1_1 = 2.72252"

definition bi1_1 :: real where
  "bi1_1 = 0.00164819"

definition ai1_2 :: real where
  "ai1_2 = 0.0190001"

definition bi1_2 :: real where
  "bi1_2 = 2.76802"

definition ai2_1 :: real where
  "ai2_1 = 0.00158295"

definition bi2_1 :: real where
  "bi2_1 = 75.0948"

definition ai2_2 :: real where
  "ai2_2 = 2.49924"

definition bi2_2 :: real where
  "bi2_2 = 3.86923"

definition ap11_1 :: real where
  "ap11_1 = 23.5079"

definition bp11_1 :: real where
  "bp11_1 = 62.7073"

definition ap11_2 :: real where
  "ap11_2 = 44.4108489690084"

definition bp11_2 :: real where
  "bp11_2 = 9.02536689954115"

definition ap12_1 :: real where
  "ap12_1 = 7.45487"

definition bp12_1 :: real where
  "bp12_1 = 570.828"

definition ap12_2 :: real where
  "ap12_2 = 16.6269298831462"

definition bp12_2 :: real where
  "bp12_2 = 0.0134505395511823"

definition ap21_1 :: real where
  "ap21_1 = 11.7691"

definition bp21_1 :: real where
  "bp21_1 = 13.1246"

definition ap21_2 :: real where
  "ap21_2 = 13.0385236154171"

definition bp21_2 :: real where
  "bp21_2 = 0.0712672329782542"

definition ap22_1 :: real where
  "ap22_1 = 0.0506817"

definition bp22_1 :: real where
  "bp22_1 = 91.5249"

definition ap22_2 :: real where
  "ap22_2 = 10.2482861977761"

definition bp22_2 :: real where
  "bp22_2 = 245.73403529402"

definition at11_1 :: real where
  "at11_1 = 1.91232"

definition bt11_1 :: real where
  "bt11_1 = 574.851"

definition at11_2 :: real where
  "at11_2 = 2.12135"

definition bt11_2 :: real where
  "bt11_2 = 198.691"

definition at12_1 :: real where
  "at12_1 = 2.3086"

definition bt12_1 :: real where
  "bt12_1 = 598.13"

definition at12_2 :: real where
  "at12_2 = 1.92168"

definition bt12_2 :: real where
  "bt12_2 = 449.254"

definition at21_1 :: real where
  "at21_1 = 1.88274"

definition bt21_1 :: real where
  "bt21_1 = 10.4787"

definition at21_2 :: real where
  "at21_2 = 1.81545"

definition bt21_2 :: real where
  "bt21_2 = 50.6018"

definition at22_1 :: real where
  "at22_1 = 1.85856"

definition bt22_1 :: real where
  "bt22_1 = 15.4026"

definition at22_2 :: real where
  "at22_2 = 2.041"

definition bt22_2 :: real where
  "bt22_2 = 476.019"

definition atH1_1 :: real where
  "atH1_1 = 8.24086"

definition btH1_1 :: real where
  "btH1_1 = 24.0953"

definition atH1_2 :: real where
  "atH1_2 = 7.87596"

definition btH1_2 :: real where
  "btH1_2 = 2.95216"

definition atH2_1 :: real where
  "atH2_1 = 10.4391"

definition btH2_1 :: real where
  "btH2_1 = 0.00153492"

definition atH2_2 :: real where
  "atH2_2 = 0.806824"

definition btH2_2 :: real where
  "btH2_2 = 46.4001"

definition ate1_1 :: real where
  "ate1_1 = 2.01811"

definition bte1_1 :: real where
  "bte1_1 = 13.8224"

definition ate1_2 :: real where
  "ate1_2 = 1.99198"

definition bte1_2 :: real where
  "bte1_2 = 15.4759"

definition ate2_1 :: real where
  "ate2_1 = 1.83056"

definition bte2_1 :: real where
  "bte2_1 = 15.2807"

definition ate2_2 :: real where
  "ate2_2 = 2.11061"

definition bte2_2 :: real where
  "bte2_2 = 10.8984"

definition aethane :: real where
  "aethane = 0.0010069"

definition bethane :: real where
  "bethane = 3.06806"

definition teta1 :: real where
  "teta1 = 0.624963"

definition teta2 :: real where
  "teta2 = 1 - teta1"

subsection \<open>Kinetic constants, as functions of the temperature\<close>

definition kethane :: "real \<Rightarrow> real" where
  "kethane T = exp aethane * exp (- exp bethane / T)"

definition ka :: "real \<Rightarrow> real" where
  "ka T = exp aka * exp (- exp bka / T)"

definition kaa :: "real \<Rightarrow> real" where
  "kaa T = exp akaa * exp (- exp bkaa / T)"

definition kaH :: "real \<Rightarrow> real" where
  "kaH T = exp akaH * exp (- exp bkaH / T)"

definition ki1_1 :: "real \<Rightarrow> real" where
  "ki1_1 T = exp ai1_1 * exp (- exp bi1_1 / T)"

definition ki1_2 :: "real \<Rightarrow> real" where
  "ki1_2 T = exp ai1_2 * exp (- exp bi1_2 / T)"

definition ki2_1 :: "real \<Rightarrow> real" where
  "ki2_1 T = exp ai2_1 * exp (- exp bi2_1 / T)"

definition ki2_2 :: "real \<Rightarrow> real" where
  "ki2_2 T = exp ai2_2 * exp (- exp bi2_2 / T)"

definition kp11_1 :: "real \<Rightarrow> real" where
  "kp11_1 T = exp ap11_1 * exp (- exp bp11_1 / T)"

definition kp11_2 :: "real \<Rightarrow> real" where
  "kp11_2 T = exp ap11_2 * exp (- exp bp11_2 / T)"

definition kp12_1 :: "real \<Rightarrow> real" where
  "kp12_1 T = exp ap12_1 * exp (- exp bp12_1 / T)"

definition kp12_2 :: "real \<Rightarrow> real" where
  "kp12_2 T = exp ap12_2 * exp (- exp bp12_2 / T)"

definition kp21_1 :: "real \<Rightarrow> real" where
  "kp21_1 T = exp ap21_1 * exp (- exp bp21_1 / T)"

definition kp21_2 :: "real \<Rightarrow> real" where
  "kp21_2 T = exp ap21_2 * exp (- exp bp21_2 / T)"

definition kp22_1 :: "real \<Rightarrow> real" where
  "kp22_1 T = exp ap22_1 * exp (- exp bp22_1 / T)"

definition kp22_2 :: "real \<Rightarrow> real" where
  "kp22_2 T = exp ap22_2 * exp (- exp bp22_2 / T)"

definition kt11_1 :: "real \<Rightarrow> real" where
  "kt11_1 T = exp at11_1 * exp (- exp bt11_1 / T)"

definition kt11_2 :: "real \<Rightarrow> real" where
  "kt11_2 T = exp at11_2 * exp (- exp bt11_2 / T)"

definition kt12_1 :: "real \<Rightarrow> real" where
  "kt12_1 T = exp at12_1 * exp (- exp bt12_1 / T)"

definition kt12_2 :: "real \<Rightarrow> real" where
  "kt12_2 T = exp at12_2 * exp (- exp bt12_2 / T)"

definition kt21_1 :: "real \<Rightarrow> real" where
  "kt21_1 T = exp at21_1 * exp (- exp bt21_1 / T)"

definition kt21_2 :: "real \<Rightarrow> real" where
  "kt21_2 T = exp at21_2 * exp (- exp bt21_2 / T)"

definition kt22_1 :: "real \<Rightarrow> real" where
  "kt22_1 T = exp at22_1 * exp (- exp bt22_1 / T)"

definition kt22_2 :: "real \<Rightarrow> real" where
  "kt22_2 T = exp at22_2 * exp (- exp bt22_2 / T)"

definition ktH1_1 :: "real \<Rightarrow> real" where
  "ktH1_1 T = exp atH1_1 * exp (- exp btH1_1 / T)"

definition ktH1_2 :: "real \<Rightarrow> real" where
  "ktH1_2 T = exp atH1_2 * exp (- exp btH1_2 / T)"

definition ktH2_1 :: "real \<Rightarrow> real" where
  "ktH2_1 T = exp atH2_1 * exp (- exp btH2_1 / T)"

definition ktH2_2 :: "real \<Rightarrow> real" where
  "ktH2_2 T = exp atH2_2 * exp (- exp btH2_2 / T)"

definition kte1_1 :: "real \<Rightarrow> real" where
  "kte1_1 T = exp ate1_1 * exp (- exp bte1_1 / T)"

definition kte1_2 :: "real \<Rightarrow> real" where
  "kte1_2 T = exp ate1_2 * exp (- exp bte1_2 / T)"

definition kte2_1 :: "real \<Rightarrow> real" where
  "kte2_1 T = exp ate2_1 * exp (- exp bte2_1 / T)"

definition kte2_2 :: "real \<Rightarrow> real" where
  "kte2_2 T = exp ate2_2 * exp (- exp bte2_2 / T)"

subsection \<open>The destructured input\<close>

abbreviation H2 :: "ZieglerModelInputs \<Rightarrow> real" where
  "H2 inputs \<equiv> hydrogen inputs"

abbreviation M1 :: "ZieglerModelInputs \<Rightarrow> real" where
  "M1 inputs \<equiv> ethylene inputs"

abbreviation M2 :: "ZieglerModelInputs \<Rightarrow> real" where
  "M2 inputs \<equiv> hexene inputs"

abbreviation N0_1 :: "ZieglerModelInputs \<Rightarrow> real" where
  "N0_1 inputs \<equiv> activeSites_z0_1 inputs"

abbreviation N0_2 :: "ZieglerModelInputs \<Rightarrow> real" where
  "N0_2 inputs \<equiv> activeSites_z0_2 inputs"

abbreviation N1_1 :: "ZieglerModelInputs \<Rightarrow> real" where
  "N1_1 inputs \<equiv> livingPolymerEnd_z1_1 inputs"

abbreviation N1_2 :: "ZieglerModelInputs \<Rightarrow> real" where
  "N1_2 inputs \<equiv> livingPolymerEnd_z1_2 inputs"

abbreviation N2_1 :: "ZieglerModelInputs \<Rightarrow> real" where
  "N2_1 inputs \<equiv> livingPolymerEnd_z2_1 inputs"

abbreviation N2_2 :: "ZieglerModelInputs \<Rightarrow> real" where
  "N2_2 inputs \<equiv> livingPolymerEnd_z2_2 inputs"

abbreviation S :: "ZieglerModelInputs \<Rightarrow> real" where
  "S inputs \<equiv> catalyst inputs"

abbreviation S1 :: "ZieglerModelInputs \<Rightarrow> real" where
  "S1 inputs \<equiv> cr6 inputs"

abbreviation Y0_1 :: "ZieglerModelInputs \<Rightarrow> real" where
  "Y0_1 inputs \<equiv> livingPolymerMoment0_y0_1 inputs"

abbreviation Y0_2 :: "ZieglerModelInputs \<Rightarrow> real" where
  "Y0_2 inputs \<equiv> livingPolymerMoment0_y0_2 inputs"

abbreviation Y1_1 :: "ZieglerModelInputs \<Rightarrow> real" where
  "Y1_1 inputs \<equiv> livingPolymerMoment1_y1_1 inputs"

abbreviation Y1_2 :: "ZieglerModelInputs \<Rightarrow> real" where
  "Y1_2 inputs \<equiv> livingPolymerMoment1_y1_2 inputs"

abbreviation Y2_1 :: "ZieglerModelInputs \<Rightarrow> real" where
  "Y2_1 inputs \<equiv> livingPolymerMoment2_y2_1 inputs"

abbreviation Y2_2 :: "ZieglerModelInputs \<Rightarrow> real" where
  "Y2_2 inputs \<equiv> livingPolymerMoment2_y2_2 inputs"

abbreviation V :: "ZieglerModelInputs \<Rightarrow> real" where
  "V inputs \<equiv> volume inputs"

abbreviation T :: "ZieglerModelInputs \<Rightarrow> real" where
  "T inputs \<equiv> temperature inputs"

abbreviation c :: "ZieglerModelInputs \<Rightarrow> real" where
  "c inputs \<equiv> cocatalyst inputs"

subsection \<open>Intermediate variables\<close>

definition eth :: "ZieglerModelInputs \<Rightarrow> real" where
  "eth inputs =
     (if reactorFlag inputs = 1 then 5.34329
      else if reactorFlag inputs = 2 then 1.13724
      else if reactorFlag inputs = 3 then 0.318066
      else if reactorFlag inputs = 4 then 0.456617
      else 0)"

definition totalMonomerConcentration :: "ZieglerModelInputs \<Rightarrow> real" where
  "totalMonomerConcentration inputs =
     M1 inputs + M2 inputs"

definition f1 :: "ZieglerModelInputs \<Rightarrow> real" where
  "f1 inputs =
     M1 inputs / (totalMonomerConcentration inputs + (1 / 10 ^ 25))"

definition f2 :: "ZieglerModelInputs \<Rightarrow> real" where
  "f2 inputs =
     M2 inputs / (totalMonomerConcentration inputs + (1 / 10 ^ 25))"

definition phi1_1 :: "ZieglerModelInputs \<Rightarrow> real" where
  "phi1_1 inputs =
     N1_1 inputs / (N1_1 inputs + N2_1 inputs + (1 / 10 ^ 25))"

definition phi1_2 :: "ZieglerModelInputs \<Rightarrow> real" where
  "phi1_2 inputs =
     N1_2 inputs / (N1_2 inputs + N2_2 inputs + (1 / 10 ^ 25))"

definition phi2_1 :: "ZieglerModelInputs \<Rightarrow> real" where
  "phi2_1 inputs =
     1 - phi1_1 inputs"

definition phi2_2 :: "ZieglerModelInputs \<Rightarrow> real" where
  "phi2_2 inputs =
     1 - phi1_2 inputs"

definition pseudo_ki_1 :: "ZieglerModelInputs \<Rightarrow> real" where
  "pseudo_ki_1 inputs =
     (ki1_1 (T inputs) * f1 inputs + ki2_1 (T inputs) * f2 inputs)"

definition pseudo_ki_2 :: "ZieglerModelInputs \<Rightarrow> real" where
  "pseudo_ki_2 inputs =
     (ki1_2 (T inputs) * f1 inputs + ki2_2 (T inputs) * f2 inputs)"

definition pseudo_kp_1 :: "ZieglerModelInputs \<Rightarrow> real" where
  "pseudo_kp_1 inputs =
     (kp11_1 (T inputs) * f1 inputs * phi1_1 inputs + kp21_1 (T inputs) * f1 inputs * phi2_1 inputs + kp22_1 (T inputs) * f2 inputs * phi2_1 inputs + kp12_1 (T inputs) * phi1_1 inputs * f2 inputs)"

definition pseudo_kp_2 :: "ZieglerModelInputs \<Rightarrow> real" where
  "pseudo_kp_2 inputs =
     (kp11_2 (T inputs) * f1 inputs * phi1_2 inputs + kp21_2 (T inputs) * f1 inputs * phi2_2 inputs + kp22_2 (T inputs) * f2 inputs * phi2_2 inputs + kp12_2 (T inputs) * phi1_2 inputs * f2 inputs)"

definition pseudo_kt_1 :: "ZieglerModelInputs \<Rightarrow> real" where
  "pseudo_kt_1 inputs =
     (kt11_1 (T inputs) * f1 inputs * phi1_1 inputs + kt21_1 (T inputs) * f1 inputs * phi2_1 inputs + kt22_1 (T inputs) * f2 inputs * phi2_1 inputs + kt12_1 (T inputs) * phi1_1 inputs * f2 inputs)"

definition pseudo_kt_2 :: "ZieglerModelInputs \<Rightarrow> real" where
  "pseudo_kt_2 inputs =
     (kt11_2 (T inputs) * f1 inputs * phi1_2 inputs + kt21_2 (T inputs) * f1 inputs * phi2_2 inputs + kt22_2 (T inputs) * f2 inputs * phi2_2 inputs + kt12_2 (T inputs) * phi1_2 inputs * f2 inputs)"

definition pseudo_ktH_1 :: "ZieglerModelInputs \<Rightarrow> real" where
  "pseudo_ktH_1 inputs =
     (ktH1_1 (T inputs) * phi1_1 inputs + ktH2_1 (T inputs) * phi2_1 inputs)"

definition pseudo_ktH_2 :: "ZieglerModelInputs \<Rightarrow> real" where
  "pseudo_ktH_2 inputs =
     (ktH1_2 (T inputs) * phi1_2 inputs + ktH2_2 (T inputs) * phi2_2 inputs)"

definition pseudo_kte_1 :: "ZieglerModelInputs \<Rightarrow> real" where
  "pseudo_kte_1 inputs =
     (kte1_1 (T inputs) * phi1_1 inputs + kte2_1 (T inputs) * phi2_1 inputs)"

definition pseudo_kte_2 :: "ZieglerModelInputs \<Rightarrow> real" where
  "pseudo_kte_2 inputs =
     (kte1_2 (T inputs) * phi1_2 inputs + kte2_2 (T inputs) * phi2_2 inputs)"

definition RM1 :: "ZieglerModelInputs \<Rightarrow> real" where
  "RM1 inputs =
     - N0_1 inputs * M1 inputs * ki1_1 (T inputs) - N0_2 inputs * M1 inputs * ki1_2 (T inputs) - M1 inputs * Y0_1 inputs * (kp11_1 (T inputs) * phi1_1 inputs + kt11_1 (T inputs) * phi1_1 inputs + kp21_1 (T inputs) * phi2_1 inputs + kt21_1 (T inputs) * phi2_1 inputs) - M1 inputs * Y0_2 inputs * (kp11_2 (T inputs) * phi1_2 inputs + kt11_2 (T inputs) * phi1_2 inputs + kp21_2 (T inputs) * phi2_2 inputs + kt21_2 (T inputs) * phi2_2 inputs)"

definition RM2 :: "ZieglerModelInputs \<Rightarrow> real" where
  "RM2 inputs =
     - N0_1 inputs * M2 inputs * ki2_1 (T inputs) - N0_2 inputs * M2 inputs * ki2_2 (T inputs) - M2 inputs * Y0_1 inputs * (kp22_1 (T inputs) * phi2_1 inputs + kt22_1 (T inputs) * phi2_1 inputs + kp12_1 (T inputs) * phi1_1 inputs + kt12_1 (T inputs) * phi1_1 inputs) - M2 inputs * Y0_2 inputs * (kp22_2 (T inputs) * phi2_2 inputs + kt22_2 (T inputs) * phi2_2 inputs + kp12_2 (T inputs) * phi1_2 inputs + kt12_2 (T inputs) * phi1_2 inputs)"

definition RH2 :: "ZieglerModelInputs \<Rightarrow> real" where
  "RH2 inputs =
     - Y0_1 inputs * H2 inputs * (ktH1_1 (T inputs) + ktH2_1 (T inputs)) - Y0_2 inputs * H2 inputs * (ktH1_2 (T inputs) + ktH2_2 (T inputs)) - kaH (T inputs) * H2 inputs * S1 inputs - kethane (T inputs) * H2 inputs * eth inputs"

definition RS :: "ZieglerModelInputs \<Rightarrow> real" where
  "RS inputs =
     - ka (T inputs) * S inputs * c inputs - kaa (T inputs) * c inputs * S inputs"

definition RS1 :: "ZieglerModelInputs \<Rightarrow> real" where
  "RS1 inputs =
     - kaH (T inputs) * H2 inputs * S1 inputs + kaa (T inputs) * c inputs * S inputs"

definition RC :: "ZieglerModelInputs \<Rightarrow> real" where
  "RC inputs =
     - ka (T inputs) * S inputs * c inputs - kaa (T inputs) * c inputs * S inputs"

definition RN0_1 :: "ZieglerModelInputs \<Rightarrow> real" where
  "RN0_1 inputs =
     (ka (T inputs) * S inputs * c inputs + kaH (T inputs) * H2 inputs * S1 inputs) * teta1 - ki1_1 (T inputs) * N0_1 inputs * M1 inputs - ki2_1 (T inputs) * N0_1 inputs * M2 inputs"

definition RN0_2 :: "ZieglerModelInputs \<Rightarrow> real" where
  "RN0_2 inputs =
     (ka (T inputs) * S inputs * c inputs + kaH (T inputs) * H2 inputs * S1 inputs) * teta2 - ki1_2 (T inputs) * N0_2 inputs * M1 inputs - ki2_2 (T inputs) * N0_2 inputs * M2 inputs"

definition RY0_1 :: "ZieglerModelInputs \<Rightarrow> real" where
  "RY0_1 inputs =
     N0_1 inputs * totalMonomerConcentration inputs * pseudo_ki_1 inputs - Y0_1 inputs * pseudo_kte_1 inputs - Y0_1 inputs * H2 inputs * pseudo_ktH_1 inputs"

definition RY0_2 :: "ZieglerModelInputs \<Rightarrow> real" where
  "RY0_2 inputs =
     N0_2 inputs * totalMonomerConcentration inputs * pseudo_ki_2 inputs - Y0_2 inputs * pseudo_kte_2 inputs - Y0_2 inputs * H2 inputs * pseudo_ktH_2 inputs"

definition RY1_1 :: "ZieglerModelInputs \<Rightarrow> real" where
  "RY1_1 inputs =
     N0_1 inputs * totalMonomerConcentration inputs * pseudo_ki_1 inputs + totalMonomerConcentration inputs * Y0_1 inputs * (pseudo_kp_1 inputs + pseudo_kt_1 inputs) - totalMonomerConcentration inputs * Y1_1 inputs * pseudo_kt_1 inputs - Y1_1 inputs * (H2 inputs * pseudo_ktH_1 inputs + pseudo_kte_1 inputs)"

definition RY1_2 :: "ZieglerModelInputs \<Rightarrow> real" where
  "RY1_2 inputs =
     N0_2 inputs * totalMonomerConcentration inputs * pseudo_ki_2 inputs + totalMonomerConcentration inputs * Y0_2 inputs * (pseudo_kp_2 inputs + pseudo_kt_2 inputs) - totalMonomerConcentration inputs * Y1_2 inputs * pseudo_kt_2 inputs - Y1_2 inputs * (H2 inputs * pseudo_ktH_2 inputs + pseudo_kte_2 inputs)"

definition RY2_1 :: "ZieglerModelInputs \<Rightarrow> real" where
  "RY2_1 inputs =
     N0_1 inputs * totalMonomerConcentration inputs * pseudo_ki_1 inputs + totalMonomerConcentration inputs * Y0_1 inputs * (pseudo_kp_1 inputs + pseudo_kt_1 inputs) + 2 * totalMonomerConcentration inputs * pseudo_kp_1 inputs * Y1_1 inputs - Y2_1 inputs * (pseudo_kt_1 inputs * totalMonomerConcentration inputs + pseudo_ktH_1 inputs * H2 inputs + pseudo_kte_1 inputs)"

definition RY2_2 :: "ZieglerModelInputs \<Rightarrow> real" where
  "RY2_2 inputs =
     N0_2 inputs * totalMonomerConcentration inputs * pseudo_ki_2 inputs + totalMonomerConcentration inputs * Y0_2 inputs * (pseudo_kp_2 inputs + pseudo_kt_2 inputs) + 2 * totalMonomerConcentration inputs * pseudo_kp_2 inputs * Y1_2 inputs - Y2_2 inputs * (pseudo_kt_2 inputs * totalMonomerConcentration inputs + pseudo_ktH_2 inputs * H2 inputs + pseudo_kte_2 inputs)"

definition Rx0_1 :: "ZieglerModelInputs \<Rightarrow> real" where
  "Rx0_1 inputs =
     Y0_1 inputs * (totalMonomerConcentration inputs * pseudo_kt_1 inputs + pseudo_ktH_1 inputs * H2 inputs + pseudo_kte_1 inputs)"

definition Rx0_2 :: "ZieglerModelInputs \<Rightarrow> real" where
  "Rx0_2 inputs =
     Y0_2 inputs * (totalMonomerConcentration inputs * pseudo_kt_2 inputs + pseudo_ktH_2 inputs * H2 inputs + pseudo_kte_2 inputs)"

definition Rx1_1 :: "ZieglerModelInputs \<Rightarrow> real" where
  "Rx1_1 inputs =
     Y1_1 inputs * (totalMonomerConcentration inputs * pseudo_kt_1 inputs + pseudo_ktH_1 inputs * H2 inputs + pseudo_kte_1 inputs)"

definition Rx1_2 :: "ZieglerModelInputs \<Rightarrow> real" where
  "Rx1_2 inputs =
     Y1_2 inputs * (totalMonomerConcentration inputs * pseudo_kt_2 inputs + pseudo_ktH_2 inputs * H2 inputs + pseudo_kte_2 inputs)"

definition Rx2_1 :: "ZieglerModelInputs \<Rightarrow> real" where
  "Rx2_1 inputs =
     Y2_1 inputs * (totalMonomerConcentration inputs * pseudo_kt_1 inputs + pseudo_ktH_1 inputs * H2 inputs + pseudo_kte_1 inputs)"

definition Rx2_2 :: "ZieglerModelInputs \<Rightarrow> real" where
  "Rx2_2 inputs =
     Y2_2 inputs * (totalMonomerConcentration inputs * pseudo_kt_2 inputs + pseudo_ktH_2 inputs * H2 inputs + pseudo_kte_2 inputs)"

definition RN1_1 :: "ZieglerModelInputs \<Rightarrow> real" where
  "RN1_1 inputs =
     ki1_1 (T inputs) * M1 inputs * N0_1 inputs + kp21_1 (T inputs) * N2_1 inputs * M1 inputs + kt21_1 (T inputs) * N2_1 inputs * M1 inputs - ktH1_1 (T inputs) * H2 inputs * N1_1 inputs - kte1_1 (T inputs) * N1_1 inputs - kp12_1 (T inputs) * N1_1 inputs * M2 inputs - kt12_1 (T inputs) * N1_1 inputs * M2 inputs"

definition RN1_2 :: "ZieglerModelInputs \<Rightarrow> real" where
  "RN1_2 inputs =
     ki1_2 (T inputs) * M1 inputs * N0_2 inputs + kp21_2 (T inputs) * N2_2 inputs * M1 inputs + kt21_2 (T inputs) * N2_2 inputs * M1 inputs - ktH1_2 (T inputs) * H2 inputs * N1_2 inputs - kte1_2 (T inputs) * N1_2 inputs - kp12_2 (T inputs) * N1_2 inputs * M2 inputs - kt12_2 (T inputs) * N1_2 inputs * M2 inputs"

definition RN2_1 :: "ZieglerModelInputs \<Rightarrow> real" where
  "RN2_1 inputs =
     ki2_1 (T inputs) * M2 inputs * N0_1 inputs + kp12_1 (T inputs) * N1_1 inputs * M2 inputs + kt12_1 (T inputs) * N1_1 inputs * M2 inputs - kp21_1 (T inputs) * N2_1 inputs * M1 inputs - kt21_1 (T inputs) * N2_1 inputs * M1 inputs - ktH2_1 (T inputs) * H2 inputs * N2_1 inputs - kte2_1 (T inputs) * N2_1 inputs"

definition RN2_2 :: "ZieglerModelInputs \<Rightarrow> real" where
  "RN2_2 inputs =
     ki2_2 (T inputs) * M2 inputs * N0_2 inputs + kp12_2 (T inputs) * N1_2 inputs * M2 inputs + kt12_2 (T inputs) * N1_2 inputs * M2 inputs - kp21_2 (T inputs) * N2_2 inputs * M1 inputs - kt21_2 (T inputs) * N2_2 inputs * M1 inputs - ktH2_2 (T inputs) * H2 inputs * N2_2 inputs - kte2_2 (T inputs) * N2_2 inputs"

definition polymerRate_M1_consumption :: "ZieglerModelInputs \<Rightarrow> real" where
  "polymerRate_M1_consumption inputs =
     - RM1 inputs"

definition polymerRate_M2_consumption :: "ZieglerModelInputs \<Rightarrow> real" where
  "polymerRate_M2_consumption inputs =
     - RM2 inputs"

definition polymerRateGrams :: "ZieglerModelInputs \<Rightarrow> real" where
  "polymerRateGrams inputs =
     (polymerRate_M1_consumption inputs * MC2 + polymerRate_M2_consumption inputs * MC6) * V inputs"

subsection \<open>The returned object\<close>

definition outputs :: "ZieglerModelInputs \<Rightarrow> ZieglerModelOutputs" where
  "outputs inputs =
     \<lparr>
       polymerProductionRate = polymerRateGrams inputs,
       rateNitrogen = 0,
       rateEthylene = RM1 inputs * V inputs,
       rateEthane = 0,
       ratePropane = 0,
       rateButene = 0,
       rateIsobutane = 0,
       rateHexene = RM2 inputs * V inputs,
       rateHexane = 0,
       rateWater = 0,
       rateCarbonMonoxide = 0,
       rateMethane = 0,
       rateHydrogen = RH2 inputs * V inputs,
       rateEthylenesegment = 0,
       rateHexenesegment = 0,
       rateCatalyst = RS inputs * V inputs,
       rateCocatalyst = RC inputs * V inputs,
       rateCr6 = RS1 inputs * V inputs,
       rateDeadPolymerMoment0_x0_1 = Rx0_1 inputs * V inputs,
       rateDeadPolymerMoment0_x0_2 = Rx0_2 inputs * V inputs,
       rateDeadPolymerMoment1_x1_1 = Rx1_1 inputs * V inputs,
       rateDeadPolymerMoment1_x1_2 = Rx1_2 inputs * V inputs,
       rateDeadPolymerMoment2_x2_1 = Rx2_1 inputs * V inputs,
       rateDeadPolymerMoment2_x2_2 = Rx2_2 inputs * V inputs,
       rateLivingPolymerMoment0_y0_1 = RY0_1 inputs * V inputs,
       rateLivingPolymerMoment0_y0_2 = RY0_2 inputs * V inputs,
       rateLivingPolymerMoment1_y1_1 = RY1_1 inputs * V inputs,
       rateLivingPolymerMoment1_y1_2 = RY1_2 inputs * V inputs,
       rateLivingPolymerMoment2_y2_1 = RY2_1 inputs * V inputs,
       rateLivingPolymerMoment2_y2_2 = RY2_2 inputs * V inputs,
       rateActiveSites_z0_1 = RN0_1 inputs * V inputs,
       rateActiveSites_z0_2 = RN0_2 inputs * V inputs,
       rateLivingPolymerEnd_z1_1 = RN1_1 inputs * V inputs,
       rateLivingPolymerEnd_z1_2 = RN1_2 inputs * V inputs,
       rateLivingPolymerEnd_z2_1 = RN2_1 inputs * V inputs,
       rateLivingPolymerEnd_z2_2 = RN2_2 inputs * V inputs,
       ratePolymerMass = polymerRateGrams inputs
     \<rparr>"

definition calculateReactionRates :: "ZieglerModelInputs \<Rightarrow> error + ZieglerModelOutputs" where
  "calculateReactionRates inputs = Inr (outputs inputs)"

subsection \<open>Inputs used to state and test the properties\<close>

text \<open>The state in which every concentration is zero; volume, temperature and reactor
  selector are free.\<close>

definition zero_state :: "real \<Rightarrow> real \<Rightarrow> real \<Rightarrow> ZieglerModelInputs" where
  "zero_state t v flag =
     \<lparr> hydrogen = 0, ethylene = 0, hexene = 0, catalyst = 0, cr6 = 0, cocatalyst = 0,
       volume = v, temperature = t, reactorFlag = flag,
       activeSites_z0_1 = 0, activeSites_z0_2 = 0,
       livingPolymerEnd_z1_1 = 0, livingPolymerEnd_z1_2 = 0,
       livingPolymerEnd_z2_1 = 0, livingPolymerEnd_z2_2 = 0,
       livingPolymerMoment0_y0_1 = 0, livingPolymerMoment0_y0_2 = 0,
       livingPolymerMoment1_y1_1 = 0, livingPolymerMoment1_y1_2 = 0,
       livingPolymerMoment2_y2_1 = 0, livingPolymerMoment2_y2_2 = 0 \<rparr>"

text \<open>The initial input of the loop-reactor page of the user interface (90 degrees
  Celsius, 100 cubic metres).\<close>

definition loop_reactor_inputs :: ZieglerModelInputs where
  "loop_reactor_inputs =
     \<lparr> hydrogen = 0.005, ethylene = 0.08, hexene = 0.02, catalyst = 0.0001, cr6 = 0,
       cocatalyst = 0.01, volume = 100000, temperature = 363.15, reactorFlag = 1,
       activeSites_z0_1 = 1 / 10 ^ 7, activeSites_z0_2 = 1 / 10 ^ 7,
       livingPolymerEnd_z1_1 = 1 / 10 ^ 7, livingPolymerEnd_z1_2 = 1 / 10 ^ 7,
       livingPolymerEnd_z2_1 = 1 / 10 ^ 7, livingPolymerEnd_z2_2 = 1 / 10 ^ 7,
       livingPolymerMoment0_y0_1 = 1 / 10 ^ 7, livingPolymerMoment0_y0_2 = 1 / 10 ^ 7,
       livingPolymerMoment1_y1_1 = 1 / 10 ^ 7, livingPolymerMoment1_y1_2 = 1 / 10 ^ 7,
       livingPolymerMoment2_y2_1 = 1 / 10 ^ 7, livingPolymerMoment2_y2_2 = 1 / 10 ^ 7 \<rparr>"

text \<open>One active site of type 1 and one unit of ethylene in a reactor of volume 2: the
  only reaction running is the initiation of ethylene on site 1.\<close>

definition initiation_only_inputs :: ZieglerModelInputs where
  "initiation_only_inputs =
     (zero_state 363.15 2 1) \<lparr> ethylene := 1, activeSites_z0_1 := 1 \<rparr>"

text \<open>Every concentration of the input is non-negative.\<close>

definition nonnegative_concentrations :: "ZieglerModelInputs \<Rightarrow> bool" where
  "nonnegative_concentrations inputs \<longleftrightarrow>
     0 \<le> H2 inputs \<and> 0 \<le> M1 inputs \<and> 0 \<le> M2 inputs \<and> 0 \<le> S inputs \<and> 0 \<le> S1 inputs \<and>
     0 \<le> c inputs \<and> 0 \<le> N0_1 inputs \<and> 0 \<le> N0_2 inputs \<and>
     0 \<le> N1_1 inputs \<and> 0 \<le> N1_2 inputs \<and> 0 \<le> N2_1 inputs \<and> 0 \<le> N2_2 inputs \<and>
     0 \<le> Y0_1 inputs \<and> 0 \<le> Y0_2 inputs \<and> 0 \<le> Y1_1 inputs \<and> 0 \<le> Y1_2 inputs \<and>
     0 \<le> Y2_1 inputs \<and> 0 \<le> Y2_2 inputs"

subsection \<open>The table of kinetic constants\<close>

text \<open>Every kinetic constant of the source with its parameter pair, in the order of the
  source: \<open>(a, b, k)\<close> for \<open>const k = Math.exp(a) * Math.exp(-Math.exp(b) / T)\<close>.\<close>

definition kinetic_constants :: "(real \<times> real \<times> (real \<Rightarrow> real)) list" where
  "kinetic_constants =
    [
     (aethane, bethane, kethane),
     (aka, bka, ka),
     (akaa, bkaa, kaa),
     (akaH, bkaH, kaH),
     (ai1_1, bi1_1, ki1_1),
     (ai1_2, bi1_2, ki1_2),
     (ai2_1, bi2_1, ki2_1),
     (ai2_2, bi2_2, ki2_2),
     (ap11_1, bp11_1, kp11_1),
     (ap11_2, bp11_2, kp11_2),
     (ap12_1, bp12_1, kp12_1),
     (ap12_2, bp12_2, kp12_2),
     (ap21_1, bp21_1, kp21_1),
     (ap21_2, bp21_2, kp21_2),
     (ap22_1, bp22_1, kp22_1),
     (ap22_2, bp22_2, kp22_2),
     (at11_1, bt11_1, kt11_1),
     (at11_2, bt11_2, kt11_2),
     (at12_1, bt12_1, kt12_1),
     (at12_2, bt12_2, kt12_2),
     (at21_1, bt21_1, kt21_1),
     (at21_2, bt21_2, kt21_2),
     (at22_1, bt22_1, kt22_1),
     (at22_2, bt22_2, kt22_2),
     (atH1_1, btH1_1, ktH1_1),
     (atH1_2, btH1_2, ktH1_2),
     (atH2_1, btH2_1, ktH2_1),
     (atH2_2, btH2_2, ktH2_2),
     (ate1_1, bte1_1, kte1_1),
     (ate1_2, bte1_2, kte1_2),
     (ate2_1, bte2_1, kte2_1),
     (ate2_2, bte2_2, kte2_2)
    ]"

subsection \<open>Underflow of \<open>Math.exp\<close>\<close>

text \<open>
  The smallest positive double is \<open>2^-1074\<close>, and \<open>e^x\<close> is below half of it for every
  \<open>x\<close> below -745.14: there \<open>Math.exp\<close> returns 0. \<open>Math_exp\<close> writes this underflow
  out, with the bound -746, and is exact elsewhere (an argument above 709.78, where
  \<open>Math.exp\<close> overflows, does not occur for the parameters of the source at a positive
  temperature). \<open>evaluated_constant\<close> is the expression of every kinetic constant of the
  source, \<open>Math.exp(a) * Math.exp(-Math.exp(b) / T)\<close>, over \<open>Math_exp\<close>.
\<close>

definition Math_exp :: "real \<Rightarrow> real" where
  "Math_exp x = (if x < - 746 then 0 else exp x)"

definition evaluated_constant :: "real \<Rightarrow> real \<Rightarrow> real \<Rightarrow> real" where
  "evaluated_constant a b t = Math_exp a * Math_exp (- Math_exp b / t)"

subsection \<open>The aggregation patterns of the specification\<close>

text \<open>The fraction-weighted sum over the four monomer-pair combinations, and the
  phi-weighted sum over the two monomer-dependent constants, as the specification
  writes them.\<close>

definition four_term_weighted_sum ::
  "real \<Rightarrow> real \<Rightarrow> real \<Rightarrow> real \<Rightarrow> real \<Rightarrow> real \<Rightarrow> real \<Rightarrow> real \<Rightarrow> real" where
  "four_term_weighted_sum k11 k21 k22 k12 fr1 fr2 ph1 ph2 =
     k11 * fr1 * ph1 + k21 * fr1 * ph2 + k22 * fr2 * ph2 + k12 * ph1 * fr2"

definition two_term_phi_sum :: "real \<Rightarrow> real \<Rightarrow> real \<Rightarrow> real \<Rightarrow> real" where
  "two_term_phi_sum k1 k2 ph1 ph2 = k1 * ph1 + k2 * ph2"

subsection \<open>The values held by the returned object\<close>

definition returned_values :: "ZieglerModelOutputs \<Rightarrow> real list" where
  "returned_values out =
     [polymerProductionRate out,
      rateNitrogen out,
      rateEthylene out,
      rateEthane out,
      ratePropane out,
      rateButene out,
      rateIsobutane out,
      rateHexene out,
      rateHexane out,
      rateWater out,
      rateCarbonMonoxide out,
      rateMethane out,
      rateHydrogen out,
      rateEthylenesegment out,
      rateHexenesegment out,
      rateCatalyst out,
      rateCocatalyst out,
      rateCr6 out,
      rateDeadPolymerMoment0_x0_1 out,
      rateDeadPolymerMoment0_x0_2 out,
      rateDeadPolymerMoment1_x1_1 out,
      rateDeadPolymerMoment1_x1_2 out,
      rateDeadPolymerMoment2_x2_1 out,
      rateDeadPolymerMoment2_x2_2 out,
      rateLivingPolymerMoment0_y0_1 out,
      rateLivingPolymerMoment0_y0_2 out,
      rateLivingPolymerMoment1_y1_1 out,
      rateLivingPolymerMoment1_y1_2 out,
      rateLivingPolymerMoment2_y2_1 out,
      rateLivingPolymerMoment2_y2_2 out,
      rateActiveSites_z0_1 out,
      rateActiveSites_z0_2 out,
      rateLivingPolymerEnd_z1_1 out,
      rateLivingPolymerEnd_z1_2 out,
      rateLivingPolymerEnd_z2_1 out,
      rateLivingPolymerEnd_z2_2 out,
      ratePolymerMass out]"

section \<open>Properties\<close>

lemmas k_defs = kethane_def ka_def kaa_def kaH_def ki1_1_def ki1_2_def ki2_1_def ki2_2_def kp11_1_def
  kp11_2_def kp12_1_def kp12_2_def kp21_1_def kp21_2_def kp22_1_def kp22_2_def kt11_1_def
  kt11_2_def kt12_1_def kt12_2_def kt21_1_def kt21_2_def kt22_1_def kt22_2_def ktH1_1_def
  ktH1_2_def ktH2_1_def ktH2_2_def kte1_1_def kte1_2_def kte2_1_def kte2_2_def

lemmas rate_defs = totalMonomerConcentration_def f1_def f2_def phi1_1_def phi1_2_def phi2_1_def phi2_2_def
  pseudo_ki_1_def pseudo_ki_2_def pseudo_kp_1_def pseudo_kp_2_def pseudo_kt_1_def
  pseudo_kt_2_def pseudo_ktH_1_def pseudo_ktH_2_def pseudo_kte_1_def pseudo_kte_2_def
  RM1_def RM2_def RH2_def RS_def RS1_def RC_def RN0_1_def RN0_2_def RY0_1_def RY0_2_def
  RY1_1_def RY1_2_def RY2_1_def RY2_2_def Rx0_1_def Rx0_2_def Rx1_1_def Rx1_2_def Rx2_1_def
  Rx2_2_def RN1_1_def RN1_2_def RN2_1_def RN2_2_def polymerRate_M1_consumption_def
  polymerRate_M2_consumption_def polymerRateGrams_def

subsection \<open>Raising\<close>

text \<open>
  Counterexample to C1 as stated. With the temperature of the loop-reactor input set to
  0, and to -5, the result is not the error \<open>InvalidTemperature\<close>: the function has no
  check of the temperature and no \<open>throw\<close>.
\<close>

theorem nonpositive_temperature_not_rejected:
  "calculateReactionRates (loop_reactor_inputs\<lparr>temperature := 0\<rparr>) \<noteq> Inl InvalidTemperature \<and>
   calculateReactionRates (loop_reactor_inputs\<lparr>temperature := - 5\<rparr>) \<noteq> Inl InvalidTemperature"
  by (simp add: calculateReactionRates_def)

text \<open>
  C1, amended. \<open>calculateReactionRates\<close> validates nothing: for every input, whatever its
  temperature, it raises no error and returns an output object. (What the formulas
  evaluate to at a temperature that is not positive is not described by this theorem.)
\<close>

theorem calculateReactionRates_never_raises:
  "calculateReactionRates inputs \<noteq> Inl e \<and> (\<exists>out. calculateReactionRates inputs = Inr out)"
  by (simp add: calculateReactionRates_def)

subsection \<open>Pseudo-kinetic constants\<close>

text \<open>
  C2. On each site the pseudo-constants of propagation and of transfer to monomer are the
  four-term fraction-weighted sum of the four constants of that site, and the
  pseudo-constants of transfer to hydrogen and of termination are the two-term
  phi-weighted sum of the two constants of that site. The latter carry no f-weighting:
  they do not change when the monomer concentrations change.
\<close>

theorem pseudo_constants_weighted_sums:
  "pseudo_kp_1 inputs = four_term_weighted_sum (kp11_1 (T inputs)) (kp21_1 (T inputs))
      (kp22_1 (T inputs)) (kp12_1 (T inputs)) (f1 inputs) (f2 inputs) (phi1_1 inputs) (phi2_1 inputs) \<and>
   pseudo_kp_2 inputs = four_term_weighted_sum (kp11_2 (T inputs)) (kp21_2 (T inputs))
      (kp22_2 (T inputs)) (kp12_2 (T inputs)) (f1 inputs) (f2 inputs) (phi1_2 inputs) (phi2_2 inputs) \<and>
   pseudo_kt_1 inputs = four_term_weighted_sum (kt11_1 (T inputs)) (kt21_1 (T inputs))
      (kt22_1 (T inputs)) (kt12_1 (T inputs)) (f1 inputs) (f2 inputs) (phi1_1 inputs) (phi2_1 inputs) \<and>
   pseudo_kt_2 inputs = four_term_weighted_sum (kt11_2 (T inputs)) (kt21_2 (T inputs))
      (kt22_2 (T inputs)) (kt12_2 (T inputs)) (f1 inputs) (f2 inputs) (phi1_2 inputs) (phi2_2 inputs) \<and>
   pseudo_ktH_1 inputs =
     two_term_phi_sum (ktH1_1 (T inputs)) (ktH2_1 (T inputs)) (phi1_1 inputs) (phi2_1 inputs) \<and>
   pseudo_ktH_2 inputs =
     two_term_phi_sum (ktH1_2 (T inputs)) (ktH2_2 (T inputs)) (phi1_2 inputs) (phi2_2 inputs) \<and>
   pseudo_kte_1 inputs =
     two_term_phi_sum (kte1_1 (T inputs)) (kte2_1 (T inputs)) (phi1_1 inputs) (phi2_1 inputs) \<and>
   pseudo_kte_2 inputs =
     two_term_phi_sum (kte1_2 (T inputs)) (kte2_2 (T inputs)) (phi1_2 inputs) (phi2_2 inputs) \<and>
   pseudo_kp_1 inputs =
     kp11_1 (T inputs) * f1 inputs * phi1_1 inputs + kp21_1 (T inputs) * f1 inputs * phi2_1 inputs
       + kp22_1 (T inputs) * f2 inputs * phi2_1 inputs + kp12_1 (T inputs) * phi1_1 inputs * f2 inputs \<and>
   pseudo_ktH_1 (inputs\<lparr>ethylene := m1, hexene := m2\<rparr>) = pseudo_ktH_1 inputs \<and>
   pseudo_ktH_2 (inputs\<lparr>ethylene := m1, hexene := m2\<rparr>) = pseudo_ktH_2 inputs \<and>
   pseudo_kte_1 (inputs\<lparr>ethylene := m1, hexene := m2\<rparr>) = pseudo_kte_1 inputs \<and>
   pseudo_kte_2 (inputs\<lparr>ethylene := m1, hexene := m2\<rparr>) = pseudo_kte_2 inputs"
  by (simp add: pseudo_kp_1_def pseudo_kp_2_def pseudo_kt_1_def pseudo_kt_2_def
      pseudo_ktH_1_def pseudo_ktH_2_def pseudo_kte_1_def pseudo_kte_2_def
      four_term_weighted_sum_def two_term_phi_sum_def
      phi1_1_def phi1_2_def phi2_1_def phi2_2_def)

subsection \<open>The form of the kinetic constants\<close>

lemma double_exp_below_single:
  fixes a b t :: real
  assumes "0 < t"
  shows "exp a * exp (- exp b / t) < exp a * exp (- b / t)"
proof -
  have "1 + b \<le> exp b" by (rule exp_ge_add_one_self)
  then have "b < exp b" by linarith
  then have "- exp b / t < - b / t" using assms by (simp add: divide_strict_right_mono)
  then have "exp (- exp b / t) < exp (- b / t)" by simp
  then show ?thesis by simp
qed

text \<open>
  C3. At every temperature \<open>t > 0\<close>, each kinetic constant of the table is the
  double-exponential form \<open>exp a * exp (- exp b / t)\<close> of its own parameter pair, and it
  differs from the single-exponential Arrhenius law \<open>exp a * exp (- b / t)\<close> of that pair.
\<close>

theorem kinetic_constants_double_exponential:
  assumes "0 < t"
  shows "list_all
    (\<lambda>(a, b, k). k t = exp a * exp (- exp b / t) \<and> k t \<noteq> exp a * exp (- b / t))
    kinetic_constants"
proof -
  have ne: "\<And>a b. exp a * exp (- exp b / t) \<noteq> exp a * exp (- b / t)"
    by (rule less_imp_neq) (rule double_exp_below_single [OF assms])
  show ?thesis
    unfolding kinetic_constants_def k_defs list.pred_inject prod.case
    by (intro conjI refl ne) simp
qed

theorem kinetic_constants_double_exponential_witness:
  "(0::real) < 363.15 \<and>
   list_all
    (\<lambda>(a, b, k). k 363.15 = exp a * exp (- exp b / 363.15) \<and> k 363.15 \<noteq> exp a * exp (- b / 363.15))
    kinetic_constants"
  using kinetic_constants_double_exponential [of "363.15"] by simp

subsection \<open>Monotonicity of the evaluated constants\<close>

lemma Math_exp_nonneg: "0 \<le> Math_exp x"
  by (simp add: Math_exp_def)

lemma Math_exp_mono: "x \<le> y \<Longrightarrow> Math_exp x \<le> Math_exp y"
  by (simp add: Math_exp_def)

lemma evaluated_constant_mono:
  assumes "0 < t1" and "t1 < t2"
  shows "evaluated_constant a b t1 \<le> evaluated_constant a b t2"
proof -
  have "Math_exp b / t2 \<le> Math_exp b / t1"
    using assms Math_exp_nonneg [of b] by (simp add: frac_le)
  then have "- Math_exp b / t1 \<le> - Math_exp b / t2" by simp
  then have "Math_exp (- Math_exp b / t1) \<le> Math_exp (- Math_exp b / t2)"
    by (rule Math_exp_mono)
  then show ?thesis
    unfolding evaluated_constant_def
    using Math_exp_nonneg [of a] by (rule mult_left_mono)
qed

lemma exp_bp12_1_large: "(1048576::real) \<le> exp bp12_1"
proof -
  have "(2::real) \<le> exp 1" using exp_ge_add_one_self [of "1::real"] by simp
  then have "(2::real) ^ 20 \<le> exp 1 ^ 20" by (rule power_mono) simp
  also have "exp (1::real) ^ 20 = exp 20" using exp_of_nat_mult [of 20 "1::real"] by simp
  also have "exp (20::real) \<le> exp bp12_1" by (simp add: bp12_1_def)
  finally show ?thesis by simp
qed

lemma kp12_1_underflow:
  assumes "0 < t" and "t \<le> 1000"
  shows "evaluated_constant ap12_1 bp12_1 t = 0"
proof -
  have b: "Math_exp bp12_1 = exp bp12_1" by (simp add: Math_exp_def bp12_1_def)
  have "746 * t < exp bp12_1" using exp_bp12_1_large assms by linarith
  then have "746 < exp bp12_1 / t" using assms by (simp add: pos_less_divide_eq)
  then have "- exp bp12_1 / t < - 746" by simp
  then have "Math_exp (- exp bp12_1 / t) = 0" by (simp add: Math_exp_def)
  then show ?thesis unfolding evaluated_constant_def b by simp
qed

text \<open>
  Counterexample to C9 as stated. The propagation constant \<open>kp12_1\<close> has the parameter
  pair \<open>(7.45487, 570.828)\<close>: at 300 K and at 400 K the inner exponent
  \<open>- exp 570.828 / T\<close> is far below the underflow bound, so the evaluated constant is 0
  at both temperatures and is not strictly greater at the higher one.
\<close>

theorem evaluated_constant_not_strictly_increasing:
  "(ap12_1, bp12_1, kp12_1) \<in> set kinetic_constants \<and>
   evaluated_constant ap12_1 bp12_1 300 = 0 \<and>
   evaluated_constant ap12_1 bp12_1 400 = 0 \<and>
   \<not> evaluated_constant ap12_1 bp12_1 300 < evaluated_constant ap12_1 bp12_1 400"
  using kp12_1_underflow [of 300] kp12_1_underflow [of 400]
  by (simp add: kinetic_constants_def)

text \<open>
  C9, amended. For every parameter pair of the table and temperatures \<open>0 < t1 < t2\<close>,
  the evaluated constant at \<open>t2\<close> is greater than or equal to the one at \<open>t1\<close>.
\<close>

theorem evaluated_constants_nondecreasing:
  assumes "0 < t1" and "t1 < t2"
  shows "list_all (\<lambda>(a, b, k). evaluated_constant a b t1 \<le> evaluated_constant a b t2)
    kinetic_constants"
  unfolding kinetic_constants_def list.pred_inject prod.case
  by (intro conjI evaluated_constant_mono [OF assms]) simp

theorem evaluated_constants_nondecreasing_witness:
  "(0::real) < 300 \<and> (300::real) < 400 \<and>
   list_all (\<lambda>(a, b, k). evaluated_constant a b 300 \<le> evaluated_constant a b 400)
    kinetic_constants"
  using evaluated_constants_nondecreasing [of 300 400] by simp

subsection \<open>Mass balance and volume scaling\<close>

text \<open>
  C4. The returned \<open>polymerProductionRate\<close> is \<open>(- RM1 * MC2 - RM2 * MC6) * V\<close> for every
  input, with \<open>RM1\<close>, \<open>RM2\<close> the concentration-basis monomer rates and \<open>MC2\<close>, \<open>MC6\<close> the
  molecular weights; when the volume is not zero, \<open>RM1\<close> and \<open>RM2\<close> are the returned
  \<open>rateEthylene\<close> and \<open>rateHexene\<close> divided by the volume.
\<close>

theorem polymer_mass_balance:
  "polymerProductionRate (outputs inputs) = (- RM1 inputs * MC2 - RM2 inputs * MC6) * V inputs \<and>
   (V inputs \<noteq> 0 \<longrightarrow>
      RM1 inputs = rateEthylene (outputs inputs) / V inputs \<and>
      RM2 inputs = rateHexene (outputs inputs) / V inputs)"
  by (simp add: outputs_def polymerRateGrams_def polymerRate_M1_consumption_def
      polymerRate_M2_consumption_def)

theorem polymer_mass_balance_witness:
  "V loop_reactor_inputs \<noteq> 0 \<and>
   polymerProductionRate (outputs loop_reactor_inputs) =
     (- RM1 loop_reactor_inputs * MC2 - RM2 loop_reactor_inputs * MC6) * V loop_reactor_inputs \<and>
   RM1 loop_reactor_inputs = rateEthylene (outputs loop_reactor_inputs) / V loop_reactor_inputs \<and>
   RM2 loop_reactor_inputs = rateHexene (outputs loop_reactor_inputs) / V loop_reactor_inputs"
proof -
  have v: "V loop_reactor_inputs \<noteq> 0" by (simp add: loop_reactor_inputs_def)
  show ?thesis using v polymer_mass_balance [of loop_reactor_inputs] by simp
qed

lemma ki1_1_pos: "0 < ki1_1 t"
  by (simp add: ki1_1_def)

lemma initiation_only_values:
  "returned_values (outputs initiation_only_inputs) =
     [56 * ki1_1 363.15, 0, - (ki1_1 363.15 * 2), 0, 0, 0, 0, 0, 0,
      0, 0, 0, 0, 0, 0, 0, 0, 0, 0, 0, 0, 0, 0, 0,
      20000000000000000000000000 * ki1_1 363.15 / 10000000000000000000000001, 0,
      20000000000000000000000000 * ki1_1 363.15 / 10000000000000000000000001, 0,
      20000000000000000000000000 * ki1_1 363.15 / 10000000000000000000000001, 0,
      - (ki1_1 363.15 * 2), 0, ki1_1 363.15 * 2, 0, 0, 0,
      56 * ki1_1 363.15]"
  by (simp add: returned_values_def outputs_def rate_defs initiation_only_inputs_def
      zero_state_def MC2_def MC6_def)

lemma initiation_only_RM1: "RM1 initiation_only_inputs = - ki1_1 363.15"
  by (simp add: RM1_def initiation_only_inputs_def zero_state_def)

text \<open>
  Counterexample to C7 as stated. With one active site of type 1, one unit of ethylene
  and volume 2, the concentration-basis ethylene rate \<open>RM1\<close> is not among the values of
  the returned object: the object holds the rate times the volume, and no field holds
  the rate as-is.
\<close>

theorem unscaled_rate_not_returned:
  "RM1 initiation_only_inputs \<notin> set (returned_values (outputs initiation_only_inputs))"
  unfolding initiation_only_values initiation_only_RM1
  using ki1_1_pos [of "363.15"] by simp

lemma rates_volume_independent:
  "RM1 (inputs\<lparr>volume := v\<rparr>) = RM1 inputs \<and>
   RM2 (inputs\<lparr>volume := v\<rparr>) = RM2 inputs \<and>
   RH2 (inputs\<lparr>volume := v\<rparr>) = RH2 inputs \<and>
   RS (inputs\<lparr>volume := v\<rparr>) = RS inputs \<and>
   RC (inputs\<lparr>volume := v\<rparr>) = RC inputs \<and>
   RS1 (inputs\<lparr>volume := v\<rparr>) = RS1 inputs \<and>
   Rx0_1 (inputs\<lparr>volume := v\<rparr>) = Rx0_1 inputs \<and>
   Rx0_2 (inputs\<lparr>volume := v\<rparr>) = Rx0_2 inputs \<and>
   Rx1_1 (inputs\<lparr>volume := v\<rparr>) = Rx1_1 inputs \<and>
   Rx1_2 (inputs\<lparr>volume := v\<rparr>) = Rx1_2 inputs \<and>
   Rx2_1 (inputs\<lparr>volume := v\<rparr>) = Rx2_1 inputs \<and>
   Rx2_2 (inputs\<lparr>volume := v\<rparr>) = Rx2_2 inputs \<and>
   RY0_1 (inputs\<lparr>volume := v\<rparr>) = RY0_1 inputs \<and>
   RY0_2 (inputs\<lparr>volume := v\<rparr>) = RY0_2 inputs \<and>
   RY1_1 (inputs\<lparr>volume := v\<rparr>) = RY1_1 inputs \<and>
   RY1_2 (inputs\<lparr>volume := v\<rparr>) = RY1_2 inputs \<and>
   RY2_1 (inputs\<lparr>volume := v\<rparr>) = RY2_1 inputs \<and>
   RY2_2 (inputs\<lparr>volume := v\<rparr>) = RY2_2 inputs \<and>
   RN0_1 (inputs\<lparr>volume := v\<rparr>) = RN0_1 inputs \<and>
   RN0_2 (inputs\<lparr>volume := v\<rparr>) = RN0_2 inputs \<and>
   RN1_1 (inputs\<lparr>volume := v\<rparr>) = RN1_1 inputs \<and>
   RN1_2 (inputs\<lparr>volume := v\<rparr>) = RN1_2 inputs \<and>
   RN2_1 (inputs\<lparr>volume := v\<rparr>) = RN2_1 inputs \<and>
   RN2_2 (inputs\<lparr>volume := v\<rparr>) = RN2_2 inputs"
  by (simp add: rate_defs eth_def)

text \<open>
  C7, amended. The returned object is determined field by field: each of the 24
  concentration-basis rates is held by one field, multiplied by the reactor volume; the
  11 fields of the other species are the constant 0; \<open>polymerProductionRate\<close> and
  \<open>ratePolymerMass\<close> are both \<open>(- RM1 * MC2 - RM2 * MC6) * V\<close>. No field is set to a rate
  as-is: the rates do not depend on the volume, and every returned value is proportional
  to it (the values at volume \<open>v\<close> are the values at volume 1 times \<open>v\<close>), so the mass rate
  carries the volume as a factor once.
\<close>

theorem rates_volume_scaled_once:
  "outputs inputs =
     \<lparr> polymerProductionRate = (- RM1 inputs * MC2 - RM2 inputs * MC6) * V inputs,
       rateNitrogen = 0,
       rateEthylene = RM1 inputs * V inputs,
       rateEthane = 0,
       ratePropane = 0,
       rateButene = 0,
       rateIsobutane = 0,
       rateHexene = RM2 inputs * V inputs,
       rateHexane = 0,
       rateWater = 0,
       rateCarbonMonoxide = 0,
       rateMethane = 0,
       rateHydrogen = RH2 inputs * V inputs,
       rateEthylenesegment = 0,
       rateHexenesegment = 0,
       rateCatalyst = RS inputs * V inputs,
       rateCocatalyst = RC inputs * V inputs,
       rateCr6 = RS1 inputs * V inputs,
       rateDeadPolymerMoment0_x0_1 = Rx0_1 inputs * V inputs,
       rateDeadPolymerMoment0_x0_2 = Rx0_2 inputs * V inputs,
       rateDeadPolymerMoment1_x1_1 = Rx1_1 inputs * V inputs,
       rateDeadPolymerMoment1_x1_2 = Rx1_2 inputs * V inputs,
       rateDeadPolymerMoment2_x2_1 = Rx2_1 inputs * V inputs,
       rateDeadPolymerMoment2_x2_2 = Rx2_2 inputs * V inputs,
       rateLivingPolymerMoment0_y0_1 = RY0_1 inputs * V inputs,
       rateLivingPolymerMoment0_y0_2 = RY0_2 inputs * V inputs,
       rateLivingPolymerMoment1_y1_1 = RY1_1 inputs * V inputs,
       rateLivingPolymerMoment1_y1_2 = RY1_2 inputs * V inputs,
       rateLivingPolymerMoment2_y2_1 = RY2_1 inputs * V inputs,
       rateLivingPolymerMoment2_y2_2 = RY2_2 inputs * V inputs,
       rateActiveSites_z0_1 = RN0_1 inputs * V inputs,
       rateActiveSites_z0_2 = RN0_2 inputs * V inputs,
       rateLivingPolymerEnd_z1_1 = RN1_1 inputs * V inputs,
       rateLivingPolymerEnd_z1_2 = RN1_2 inputs * V inputs,
       rateLivingPolymerEnd_z2_1 = RN2_1 inputs * V inputs,
       rateLivingPolymerEnd_z2_2 = RN2_2 inputs * V inputs,
       ratePolymerMass = (- RM1 inputs * MC2 - RM2 inputs * MC6) * V inputs \<rparr> \<and>
   RM1 (inputs\<lparr>volume := v\<rparr>) = RM1 inputs \<and>
   RM2 (inputs\<lparr>volume := v\<rparr>) = RM2 inputs \<and>
   RH2 (inputs\<lparr>volume := v\<rparr>) = RH2 inputs \<and>
   RS (inputs\<lparr>volume := v\<rparr>) = RS inputs \<and>
   RC (inputs\<lparr>volume := v\<rparr>) = RC inputs \<and>
   RS1 (inputs\<lparr>volume := v\<rparr>) = RS1 inputs \<and>
   Rx0_1 (inputs\<lparr>volume := v\<rparr>) = Rx0_1 inputs \<and>
   Rx0_2 (inputs\<lparr>volume := v\<rparr>) = Rx0_2 inputs \<and>
   Rx1_1 (inputs\<lparr>volume := v\<rparr>) = Rx1_1 inputs \<and>
   Rx1_2 (inputs\<lparr>volume := v\<rparr>) = Rx1_2 inputs \<and>
   Rx2_1 (inputs\<lparr>volume := v\<rparr>) = Rx2_1 inputs \<and>
   Rx2_2 (inputs\<lparr>volume := v\<rparr>) = Rx2_2 inputs \<and>
   RY0_1 (inputs\<lparr>volume := v\<rparr>) = RY0_1 inputs \<and>
   RY0_2 (inputs\<lparr>volume := v\<rparr>) = RY0_2 inputs \<and>
   RY1_1 (inputs\<lparr>volume := v\<rparr>) = RY1_1 inputs \<and>
   RY1_2 (inputs\<lparr>volume := v\<rparr>) = RY1_2 inputs \<and>
   RY2_1 (inputs\<lparr>volume := v\<rparr>) = RY2_1 inputs \<and>
   RY2_2 (inputs\<lparr>volume := v\<rparr>) = RY2_2 inputs \<and>
   RN0_1 (inputs\<lparr>volume := v\<rparr>) = RN0_1 inputs \<and>
   RN0_2 (inputs\<lparr>volume := v\<rparr>) = RN0_2 inputs \<and>
   RN1_1 (inputs\<lparr>volume := v\<rparr>) = RN1_1 inputs \<and>
   RN1_2 (inputs\<lparr>volume := v\<rparr>) = RN1_2 inputs \<and>
   RN2_1 (inputs\<lparr>volume := v\<rparr>) = RN2_1 inputs \<and>
   RN2_2 (inputs\<lparr>volume := v\<rparr>) = RN2_2 inputs \<and>
   returned_values (outputs (inputs\<lparr>volume := v\<rparr>)) =
     map (\<lambda>x. x * v) (returned_values (outputs (inputs\<lparr>volume := 1\<rparr>)))"
proof -
  have mass: "\<And>i. polymerRateGrams i = (- RM1 i * MC2 - RM2 i * MC6) * V i"
    by (simp add: polymerRateGrams_def polymerRate_M1_consumption_def
        polymerRate_M2_consumption_def)
  have obj: "outputs inputs =
     \<lparr> polymerProductionRate = (- RM1 inputs * MC2 - RM2 inputs * MC6) * V inputs,
       rateNitrogen = 0,
       rateEthylene = RM1 inputs * V inputs,
       rateEthane = 0,
       ratePropane = 0,
       rateButene = 0,
       rateIsobutane = 0,
       rateHexene = RM2 inputs * V inputs,
       rateHexane = 0,
       rateWater = 0,
       rateCarbonMonoxide = 0,
       rateMethane = 0,
       rateHydrogen = RH2 inputs * V inputs,
       rateEthylenesegment = 0,
       rateHexenesegment = 0,
       rateCatalyst = RS inputs * V inputs,
       rateCocatalyst = RC inputs * V inputs,
       rateCr6 = RS1 inputs * V inputs,
       rateDeadPolymerMoment0_x0_1 = Rx0_1 inputs * V inputs,
       rateDeadPolymerMoment0_x0_2 = Rx0_2 inputs * V inputs,
       rateDeadPolymerMoment1_x1_1 = Rx1_1 inputs * V inputs,
       rateDeadPolymerMoment1_x1_2 = Rx1_2 inputs * V inputs,
       rateDeadPolymerMoment2_x2_1 = Rx2_1 inputs * V inputs,
       rateDeadPolymerMoment2_x2_2 = Rx2_2 inputs * V inputs,
       rateLivingPolymerMoment0_y0_1 = RY0_1 inputs * V inputs,
       rateLivingPolymerMoment0_y0_2 = RY0_2 inputs * V inputs,
       rateLivingPolymerMoment1_y1_1 = RY1_1 inputs * V inputs,
       rateLivingPolymerMoment1_y1_2 = RY1_2 inputs * V inputs,
       rateLivingPolymerMoment2_y2_1 = RY2_1 inputs * V inputs,
       rateLivingPolymerMoment2_y2_2 = RY2_2 inputs * V inputs,
       rateActiveSites_z0_1 = RN0_1 inputs * V inputs,
       rateActiveSites_z0_2 = RN0_2 inputs * V inputs,
       rateLivingPolymerEnd_z1_1 = RN1_1 inputs * V inputs,
       rateLivingPolymerEnd_z1_2 = RN1_2 inputs * V inputs,
       rateLivingPolymerEnd_z2_1 = RN2_1 inputs * V inputs,
       rateLivingPolymerEnd_z2_2 = RN2_2 inputs * V inputs,
       ratePolymerMass = (- RM1 inputs * MC2 - RM2 inputs * MC6) * V inputs \<rparr>"
    by (simp add: outputs_def mass)
  have hom: "returned_values (outputs (inputs\<lparr>volume := v\<rparr>)) =
     map (\<lambda>x. x * v) (returned_values (outputs (inputs\<lparr>volume := 1\<rparr>)))"
    by (simp add: returned_values_def outputs_def mass rates_volume_independent)
  show ?thesis
    using obj hom by (simp add: rates_volume_independent)
qed

text \<open>
  C10. The returned \<open>rateCatalyst\<close> and \<open>rateCocatalyst\<close> coincide for every input: both
  are \<open>(- ka * S * c - kaa * c * S) * V\<close>.
\<close>

theorem catalyst_rate_equals_cocatalyst_rate:
  "rateCatalyst (outputs inputs) = rateCocatalyst (outputs inputs) \<and>
   rateCatalyst (outputs inputs) =
     (- ka (T inputs) * S inputs * c inputs - kaa (T inputs) * c inputs * S inputs) * V inputs \<and>
   rateCocatalyst (outputs inputs) =
     (- ka (T inputs) * S inputs * c inputs - kaa (T inputs) * c inputs * S inputs) * V inputs"
  by (simp add: outputs_def RS_def RC_def)

subsection \<open>Fractions and the zero state\<close>

text \<open>
  Counterexample to C5 as stated. In the zero state the end-group fraction \<open>phi2_1\<close> is
  1, not 0: it is computed as \<open>1 - phi1_1\<close>.
\<close>

theorem zero_state_phi2_is_one:
  "phi2_1 (zero_state 363.15 1 1) = 1 \<and> phi2_1 (zero_state 363.15 1 1) \<noteq> 0"
  by (simp add: phi2_1_def phi1_1_def zero_state_def)

text \<open>
  C5, amended. With every concentration 0 and a positive temperature, the fractions
  \<open>f1\<close>, \<open>f2\<close>, \<open>phi1_1\<close>, \<open>phi1_2\<close> are 0 and \<open>phi2_1\<close>, \<open>phi2_2\<close> are 1; no division is by
  zero (each guarded denominator and the temperature is non-zero); and the returned
  monomer, hydrogen, catalyst, cocatalyst and second-catalyst-species rates are 0.
\<close>

theorem zero_state_well_defined:
  assumes "0 < t"
  shows "f1 (zero_state t v flag) = 0 \<and> f2 (zero_state t v flag) = 0 \<and>
    phi1_1 (zero_state t v flag) = 0 \<and> phi1_2 (zero_state t v flag) = 0 \<and>
    phi2_1 (zero_state t v flag) = 1 \<and> phi2_2 (zero_state t v flag) = 1 \<and>
    totalMonomerConcentration (zero_state t v flag) + 1 / 10 ^ 25 \<noteq> 0 \<and>
    N1_1 (zero_state t v flag) + N2_1 (zero_state t v flag) + 1 / 10 ^ 25 \<noteq> 0 \<and>
    N1_2 (zero_state t v flag) + N2_2 (zero_state t v flag) + 1 / 10 ^ 25 \<noteq> 0 \<and>
    T (zero_state t v flag) \<noteq> 0 \<and>
    rateEthylene (outputs (zero_state t v flag)) = 0 \<and>
    rateHexene (outputs (zero_state t v flag)) = 0 \<and>
    rateHydrogen (outputs (zero_state t v flag)) = 0 \<and>
    rateCatalyst (outputs (zero_state t v flag)) = 0 \<and>
    rateCocatalyst (outputs (zero_state t v flag)) = 0 \<and>
    rateCr6 (outputs (zero_state t v flag)) = 0"
  using assms
  by (simp add: outputs_def rate_defs zero_state_def)

theorem zero_state_well_defined_witness:
  "(0::real) < 363.15 \<and> f1 (zero_state 363.15 1 1) = 0 \<and> phi2_2 (zero_state 363.15 1 1) = 1 \<and>
   rateEthylene (outputs (zero_state 363.15 1 1)) = 0 \<and>
   rateHydrogen (outputs (zero_state 363.15 1 1)) = 0 \<and>
   rateCatalyst (outputs (zero_state 363.15 1 1)) = 0"
  using zero_state_well_defined [of "363.15" 1 1] by simp

lemma guarded_fraction_bounds:
  fixes x y :: real
  assumes "0 \<le> x" and "0 \<le> y"
  shows "0 \<le> x / (x + y + 1 / 10 ^ 25)" and "x / (x + y + 1 / 10 ^ 25) < 1"
proof -
  have d: "0 < x + y + 1 / 10 ^ 25" using assms by (simp add: add_nonneg_pos)
  show "0 \<le> x / (x + y + 1 / 10 ^ 25)" using assms d by simp
  have "x < x + y + 1 / 10 ^ 25" using assms by (simp add: add_nonneg_pos add.assoc)
  then show "x / (x + y + 1 / 10 ^ 25) < 1" using d by simp
qed

lemma guarded_fraction_sum:
  fixes x y e :: real
  assumes "0 < x + y + e"
  shows "x / (x + y + e) + y / (x + y + e) = 1 - e / (x + y + e)"
proof -
  have "x / (x + y + e) + y / (x + y + e) + e / (x + y + e) = (x + y + e) / (x + y + e)"
    by (simp only: add_divide_distrib)
  also have "\<dots> = 1" using assms by simp
  finally show ?thesis by linarith
qed

lemma guard_share_small:
  fixes s :: real
  assumes "1 / 10 ^ 15 \<le> s"
  shows "(1 / 10 ^ 25) / (s + 1 / 10 ^ 25) \<le> 1 / 10 ^ 9"
proof -
  have d: "0 < s + 1 / 10 ^ 25" using assms by (simp add: add_nonneg_pos)
  have "(1::real) / 10 ^ 25 \<le> (1 / 10 ^ 9) * (s + 1 / 10 ^ 25)" using assms by simp
  then show ?thesis using d by (simp only: pos_divide_le_eq)
qed

text \<open>
  Counterexample to C6 as stated. With both monomer concentrations 0, which is
  non-negative, \<open>f1 + f2\<close> is 0 and not 1.
\<close>

theorem zero_monomer_fractions_sum_zero:
  "f1 (zero_state 363.15 1 1) + f2 (zero_state 363.15 1 1) = 0 \<and>
   f1 (zero_state 363.15 1 1) + f2 (zero_state 363.15 1 1) \<noteq> 1"
  by (simp add: f1_def f2_def totalMonomerConcentration_def zero_state_def)

text \<open>
  C6, amended. For non-negative monomer concentrations \<open>M1\<close>, \<open>M2\<close>, each of \<open>f1\<close>, \<open>f2\<close>
  lies in [0,1]; their sum is 1 within the tolerance \<open>1e-9\<close> whenever \<open>M1 + M2\<close> is at
  least \<open>1e-15\<close>, is 0 when both concentrations are 0, and in every case lies between 0
  and \<open>1 + 1e-9\<close>. For non-negative chain-end concentrations on a site,
  \<open>phi1 + phi2 = 1\<close> and each of them lies in [0,1].
\<close>

theorem fraction_bounds:
  "(0 \<le> M1 inputs \<and> 0 \<le> M2 inputs \<longrightarrow>
      0 \<le> f1 inputs \<and> f1 inputs \<le> 1 \<and> 0 \<le> f2 inputs \<and> f2 inputs \<le> 1 \<and>
      0 \<le> f1 inputs + f2 inputs \<and> f1 inputs + f2 inputs \<le> 1 + 1 / 10 ^ 9 \<and>
      (1 / 10 ^ 15 \<le> M1 inputs + M2 inputs \<longrightarrow> \<bar>f1 inputs + f2 inputs - 1\<bar> \<le> 1 / 10 ^ 9) \<and>
      (M1 inputs = 0 \<and> M2 inputs = 0 \<longrightarrow> f1 inputs + f2 inputs = 0)) \<and>
   (0 \<le> N1_1 inputs \<and> 0 \<le> N2_1 inputs \<longrightarrow>
      phi1_1 inputs + phi2_1 inputs = 1 \<and> 0 \<le> phi1_1 inputs \<and> phi1_1 inputs \<le> 1 \<and>
      0 \<le> phi2_1 inputs \<and> phi2_1 inputs \<le> 1) \<and>
   (0 \<le> N1_2 inputs \<and> 0 \<le> N2_2 inputs \<longrightarrow>
      phi1_2 inputs + phi2_2 inputs = 1 \<and> 0 \<le> phi1_2 inputs \<and> phi1_2 inputs \<le> 1 \<and>
      0 \<le> phi2_2 inputs \<and> phi2_2 inputs \<le> 1)"
proof (intro conjI impI)
  assume m: "0 \<le> M1 inputs \<and> 0 \<le> M2 inputs"
  have d: "0 < M1 inputs + M2 inputs + 1 / 10 ^ 25" using m by (simp add: add_nonneg_pos)
  have a: "0 \<le> f1 inputs" "f1 inputs < 1"
    using guarded_fraction_bounds [of "M1 inputs" "M2 inputs"] m
    by (simp_all add: f1_def totalMonomerConcentration_def)
  have b: "0 \<le> f2 inputs" "f2 inputs < 1"
    using guarded_fraction_bounds [of "M2 inputs" "M1 inputs"] m
    by (simp_all add: f2_def totalMonomerConcentration_def add.commute)
  have s: "f1 inputs + f2 inputs = 1 - (1 / 10 ^ 25) / (M1 inputs + M2 inputs + 1 / 10 ^ 25)"
    unfolding f1_def f2_def totalMonomerConcentration_def
    by (rule guarded_fraction_sum [OF d])
  have e: "0 < (1 / 10 ^ 25) / (M1 inputs + M2 inputs + 1 / 10 ^ 25)" using d by simp
  show "0 \<le> f1 inputs" "f1 inputs \<le> 1" "0 \<le> f2 inputs" "f2 inputs \<le> 1"
    using a b by simp_all
  show "0 \<le> f1 inputs + f2 inputs" using a b by simp
  have "f1 inputs + f2 inputs < 1" using s e by linarith
  then show "f1 inputs + f2 inputs \<le> 1 + 1 / 10 ^ 9" by simp
  show "\<bar>f1 inputs + f2 inputs - 1\<bar> \<le> 1 / 10 ^ 9" if "1 / 10 ^ 15 \<le> M1 inputs + M2 inputs"
    using s e guard_share_small [OF that] by linarith
  show "f1 inputs + f2 inputs = 0" if "M1 inputs = 0 \<and> M2 inputs = 0"
    using that by (simp add: f1_def f2_def)
next
  assume n: "0 \<le> N1_1 inputs \<and> 0 \<le> N2_1 inputs"
  have a: "0 \<le> phi1_1 inputs" "phi1_1 inputs < 1"
    using guarded_fraction_bounds [of "N1_1 inputs" "N2_1 inputs"] n
    by (simp_all add: phi1_1_def)
  show "phi1_1 inputs + phi2_1 inputs = 1" by (simp add: phi2_1_def)
  show "0 \<le> phi1_1 inputs" "phi1_1 inputs \<le> 1" "0 \<le> phi2_1 inputs" "phi2_1 inputs \<le> 1"
    using a by (simp_all add: phi2_1_def)
next
  assume n: "0 \<le> N1_2 inputs \<and> 0 \<le> N2_2 inputs"
  have a: "0 \<le> phi1_2 inputs" "phi1_2 inputs < 1"
    using guarded_fraction_bounds [of "N1_2 inputs" "N2_2 inputs"] n
    by (simp_all add: phi1_2_def)
  show "phi1_2 inputs + phi2_2 inputs = 1" by (simp add: phi2_2_def)
  show "0 \<le> phi1_2 inputs" "phi1_2 inputs \<le> 1" "0 \<le> phi2_2 inputs" "phi2_2 inputs \<le> 1"
    using a by (simp_all add: phi2_2_def)
qed

theorem fraction_bounds_witness:
  "0 \<le> M1 loop_reactor_inputs \<and> 0 \<le> M2 loop_reactor_inputs \<and>
   1 / 10 ^ 15 \<le> M1 loop_reactor_inputs + M2 loop_reactor_inputs \<and>
   0 \<le> N1_1 loop_reactor_inputs \<and> 0 \<le> N2_1 loop_reactor_inputs \<and>
   0 \<le> N1_2 loop_reactor_inputs \<and> 0 \<le> N2_2 loop_reactor_inputs \<and>
   f1 loop_reactor_inputs \<le> 1 \<and> f2 loop_reactor_inputs \<le> 1 \<and>
   \<bar>f1 loop_reactor_inputs + f2 loop_reactor_inputs - 1\<bar> \<le> 1 / 10 ^ 9 \<and>
   phi1_1 loop_reactor_inputs + phi2_1 loop_reactor_inputs = 1 \<and>
   phi1_2 loop_reactor_inputs + phi2_2 loop_reactor_inputs = 1 \<and>
   0 \<le> M1 (zero_state 363.15 1 1) \<and> 0 \<le> M2 (zero_state 363.15 1 1) \<and>
   M1 (zero_state 363.15 1 1) = 0 \<and> M2 (zero_state 363.15 1 1) = 0 \<and>
   f1 (zero_state 363.15 1 1) + f2 (zero_state 363.15 1 1) = 0"
proof -
  have h: "0 \<le> M1 loop_reactor_inputs \<and> 0 \<le> M2 loop_reactor_inputs"
    "1 / 10 ^ 15 \<le> M1 loop_reactor_inputs + M2 loop_reactor_inputs"
    "0 \<le> N1_1 loop_reactor_inputs \<and> 0 \<le> N2_1 loop_reactor_inputs"
    "0 \<le> N1_2 loop_reactor_inputs \<and> 0 \<le> N2_2 loop_reactor_inputs"
    by (simp_all add: loop_reactor_inputs_def)
  have z: "0 \<le> M1 (zero_state 363.15 1 1) \<and> 0 \<le> M2 (zero_state 363.15 1 1)"
    "M1 (zero_state 363.15 1 1) = 0 \<and> M2 (zero_state 363.15 1 1) = 0"
    by (simp_all add: zero_state_def)
  show ?thesis
    using h z fraction_bounds [of loop_reactor_inputs]
      fraction_bounds [of "zero_state 363.15 1 1"]
    by simp
qed

subsection \<open>Totality\<close>

text \<open>
  C8. For every input with non-negative concentrations and positive temperature,
  \<open>calculateReactionRates\<close> does not raise: it returns the object its formulas produce,
  with no validation, and no division in these formulas is by zero (the guarded
  denominators are positive, also when all concentrations are zero, and so is the
  temperature).
\<close>

theorem calculateReactionRates_total:
  assumes "nonnegative_concentrations inputs" and "0 < T inputs"
  shows "calculateReactionRates inputs = Inr (outputs inputs) \<and>
    0 < totalMonomerConcentration inputs + 1 / 10 ^ 25 \<and>
    0 < N1_1 inputs + N2_1 inputs + 1 / 10 ^ 25 \<and>
    0 < N1_2 inputs + N2_2 inputs + 1 / 10 ^ 25 \<and>
    T inputs \<noteq> 0"
  using assms
  by (simp add: calculateReactionRates_def nonnegative_concentrations_def
      totalMonomerConcentration_def add_nonneg_pos)

theorem calculateReactionRates_total_witness:
  "nonnegative_concentrations loop_reactor_inputs \<and> 0 < T loop_reactor_inputs \<and>
   calculateReactionRates loop_reactor_inputs = Inr (outputs loop_reactor_inputs) \<and>
   nonnegative_concentrations (zero_state 363.15 1 1) \<and> 0 < T (zero_state 363.15 1 1) \<and>
   calculateReactionRates (zero_state 363.15 1 1) = Inr (outputs (zero_state 363.15 1 1))"
proof -
  have h: "nonnegative_concentrations loop_reactor_inputs" "0 < T loop_reactor_inputs"
    by (simp_all add: nonnegative_concentrations_def loop_reactor_inputs_def)
  have z: "nonnegative_concentrations (zero_state 363.15 1 1)" "0 < T (zero_state 363.15 1 1)"
    by (simp_all add: nonnegative_concentrations_def zero_state_def)
  show ?thesis
    using h z calculateReactionRates_total [OF h] calculateReactionRates_total [OF z]
    by simp
qed

end
